theory Spec2Isabelle
  imports Complex_Main
begin

section \<open>JavaScript numbers of the scoring code\<close>

text \<open>
  The scoring code of the implementation guide is JavaScript. Its counts and penalties
  are integers far below \<open>2^53\<close>, so they are modelled as \<open>nat\<close> and \<open>int\<close>.
  The one division can produce a fraction, \<open>NaN\<close> or an infinity; the three special
  values are constructors, and a finite value is kept as the exact rational: the rounding
  of a double after the division and after the multiplication, of relative size
  \<open>2^-53\<close> each, is not modelled. What is stated below of a finite score is therefore
  an order, a threshold or the value to four decimal places, which this rounding does
  not change, and never an exact fraction.
\<close>

datatype jsnum = NaN | NegInf | PosInf | Fin rat

text \<open>\<open>a / b\<close> on two integers: division by zero gives \<open>NaN\<close> or a signed infinity.\<close>

definition js_div :: "int \<Rightarrow> int \<Rightarrow> jsnum" where
  "js_div a b =
     (if b = 0 then (if a = 0 then NaN else if 0 < a then PosInf else NegInf)
      else Fin (of_int a / of_int b))"

text \<open>\<open>x * c\<close> for a positive finite constant \<open>c\<close>.\<close>

fun js_times_pos :: "jsnum \<Rightarrow> rat \<Rightarrow> jsnum" where
  "js_times_pos NaN c = NaN"
| "js_times_pos NegInf c = NegInf"
| "js_times_pos PosInf c = PosInf"
| "js_times_pos (Fin q) c = Fin (q * c)"

text \<open>\<open>Math.max(0, x)\<close>: \<open>NaN\<close> is contagious.\<close>

fun js_max0 :: "jsnum \<Rightarrow> jsnum" where
  "js_max0 NaN = NaN"
| "js_max0 NegInf = Fin 0"
| "js_max0 PosInf = PosInf"
| "js_max0 (Fin q) = Fin (max 0 q)"

text \<open>\<open>x >= c\<close> for a finite constant \<open>c\<close>: false when \<open>x\<close> is \<open>NaN\<close>.\<close>

fun js_ge :: "jsnum \<Rightarrow> rat \<Rightarrow> bool" where
  "js_ge NaN c = False"
| "js_ge NegInf c = False"
| "js_ge PosInf c = True"
| "js_ge (Fin q) c = (c \<le> q)"

text \<open>\<open>x <= y\<close>: false as soon as one side is \<open>NaN\<close>.\<close>

fun js_le :: "jsnum \<Rightarrow> jsnum \<Rightarrow> bool" where
  "js_le NaN y = False"
| "js_le x NaN = False"
| "js_le NegInf y = True"
| "js_le x PosInf = True"
| "js_le PosInf y = False"
| "js_le x NegInf = False"
| "js_le (Fin p) (Fin q) = (p \<le> q)"

section \<open>Scoring engine: overall accuracy score\<close>

text \<open>
  One entry of \<open>validationResults\<close>: the number of errors found by one validation and
  the severity label stored with it.
\<close>

record validation_result =
  errorCount :: nat
  severity :: string

text \<open>
  The body of the \<open>forEach\<close> in \<open>calculateAccuracyScore\<close>: the penalty grows by the
  weighted error count; a severity other than the three labels adds nothing.
\<close>

definition add_penalty :: "int \<Rightarrow> validation_result \<Rightarrow> int" where
  "add_penalty totalPenalty result =
     (if severity result = ''CRITICAL'' then totalPenalty + int (errorCount result) * 10
      else if severity result = ''MAJOR'' then totalPenalty + int (errorCount result) * 5
      else if severity result = ''MINOR'' then totalPenalty + int (errorCount result) * 2
      else totalPenalty)"

definition totalPenalty :: "validation_result list \<Rightarrow> int" where
  "totalPenalty validationResults = foldl add_penalty 0 validationResults"

definition calculateAccuracyScore :: "validation_result list \<Rightarrow> nat \<Rightarrow> jsnum" where
  "calculateAccuracyScore validationResults totalRecords =
     (let maxPossibleScore = int totalRecords * 100
      in js_max0 (js_times_pos
           (js_div (maxPossibleScore - totalPenalty validationResults) maxPossibleScore) 100))"

section \<open>Traffic light\<close>

record traffic_light =
  status :: string
  color :: string
  message :: string

definition getTrafficLightStatus :: "jsnum \<Rightarrow> traffic_light" where
  "getTrafficLightStatus accuracyScore =
     (if js_ge accuracyScore 95
      then \<lparr>status = ''GREEN'', color = ''#28a745'', message = ''Excellent''\<rparr>
      else if js_ge accuracyScore 85
      then \<lparr>status = ''AMBER'', color = ''#ffc107'', message = ''Needs Attention''\<rparr>
      else \<lparr>status = ''RED'', color = ''#dc3545'', message = ''Critical Issues''\<rparr>)"

section \<open>SQL values and conditions\<close>

text \<open>
  The validators of the implementation guide are Athena queries over the table
  \<open>emir_trades\<close>. A column value is \<open>NULL\<close> (\<open>None\<close>) or a value; a condition is
  \<open>TRUE\<close>, \<open>FALSE\<close> or \<open>UNKNOWN\<close> (\<open>None\<close>), and a \<open>WHERE\<close> clause keeps the rows
  whose condition is \<open>TRUE\<close>.
\<close>

type_synonym sqlbool = "bool option"

fun sql_and :: "sqlbool \<Rightarrow> sqlbool \<Rightarrow> sqlbool" where
  "sql_and (Some False) q = Some False"
| "sql_and p (Some False) = Some False"
| "sql_and (Some True) (Some True) = Some True"
| "sql_and p q = None"

fun sql_or :: "sqlbool \<Rightarrow> sqlbool \<Rightarrow> sqlbool" where
  "sql_or (Some True) q = Some True"
| "sql_or p (Some True) = Some True"
| "sql_or (Some False) (Some False) = Some False"
| "sql_or p q = None"

definition is_null :: "'a option \<Rightarrow> sqlbool" where
  "is_null v = Some (v = None)"

definition is_not_null :: "'a option \<Rightarrow> sqlbool" where
  "is_not_null v = Some (v \<noteq> None)"

text \<open>A comparison of two values: \<open>UNKNOWN\<close> when one of them is \<open>NULL\<close>.\<close>

definition sql_cmp :: "('a \<Rightarrow> 'b \<Rightarrow> bool) \<Rightarrow> 'a option \<Rightarrow> 'b option \<Rightarrow> sqlbool" where
  "sql_cmp rel a b = (case (a, b) of (Some x, Some y) \<Rightarrow> Some (rel x y) | _ \<Rightarrow> None)"

definition where_true :: "sqlbool \<Rightarrow> bool" where
  "where_true c = (c = Some True)"

section \<open>The table of trades\<close>

text \<open>
  The columns of \<open>emir_trades\<close> that the queries below read, with the types the Glue
  table gives them: a \<open>timestamp\<close> is a number of milliseconds since the epoch, a \<open>date\<close>
  a number of days since the epoch, a \<open>decimal\<close> a rational number. On such columns the
  casts \<open>CAST(c AS TIMESTAMP)\<close> and \<open>CAST(c AS DATE)\<close> of the queries change nothing.
  The queries compare \<open>cleared\<close> with the text \<open>'true'\<close>, so it is kept as text.
  One list of trades stands for the rows of one partition
  (\<open>WHERE year = ... AND month = ... AND day = ...\<close>), that is, of one report.
\<close>

record trade =
  uti :: "string option"
  counterparty_1 :: "string option"
  action_type :: "string option"
  execution_timestamp :: "int option"
  effective_date :: "int option"
  expiration_date :: "int option"
  early_termination_date :: "int option"
  cleared :: "string option"
  clearing_timestamp :: "int option"
  notional_amount_1 :: "rat option"
  notional_currency_1 :: "string option"
  valuation_amount :: "rat option"
  valuation_currency :: "string option"

text \<open>A date compared with a timestamp is taken at midnight of its day.\<close>

definition date_to_timestamp :: "int \<Rightarrow> int" where
  "date_to_timestamp d = d * 86400000"

text \<open>
  \<open>DATE_DIFF('day', t1, t2)\<close>: the number of whole days from \<open>t1\<close> to \<open>t2\<close>, rounded
  towards zero; \<open>NULL\<close> when an argument is \<open>NULL\<close>.
\<close>

definition date_diff_day :: "int option \<Rightarrow> int option \<Rightarrow> int option" where
  "date_diff_day t1 t2 =
     (case (t1, t2) of
        (Some a, Some b) \<Rightarrow> Some (sgn (b - a) * (\<bar>b - a\<bar> div 86400000))
      | _ \<Rightarrow> None)"

section \<open>Completeness validator\<close>



section \<open>Format validator\<close>




text \<open>
  Query 3.1, UTI uniqueness: the rows with a UTI are grouped by UTI, and every group of
  more than one row gives one result row, the UTI and the size of its group. The order
  of the result rows is not fixed by the query.
\<close>

definition uti_uniqueness_query :: "trade list \<Rightarrow> (string \<times> nat) list" where
  "uti_uniqueness_query emir_trades =
     (let utis = List.map_filter uti emir_trades
      in map (\<lambda>u. (u, count_list utis u))
           (filter (\<lambda>u. 1 < count_list utis u) (remdups utis)))"

text \<open>
  Results are tied to trades by the UTI alone: the scoring query joins the error tables
  \<open>ON t.uti = fmt.uti\<close>. A trade matches a result row when its UTI equals the row's.
\<close>

definition trades_matching :: "string \<times> nat \<Rightarrow> trade list \<Rightarrow> trade list" where
  "trades_matching row emir_trades =
     filter (\<lambda>t. where_true (sql_cmp (=) (uti t) (Some (fst row)))) emir_trades"

section \<open>Logical validator\<close>

text \<open>The condition of the date sequence query (4.1), disjunct by disjunct.\<close>

definition date_sequence_condition :: "trade \<Rightarrow> sqlbool" where
  "date_sequence_condition t =
     sql_or (sql_or (sql_or
       (sql_cmp (>) (execution_timestamp t) (map_option date_to_timestamp (effective_date t)))
       (sql_cmp (>) (effective_date t) (expiration_date t)))
       (sql_and (is_not_null (early_termination_date t))
          (sql_cmp (\<ge>) (early_termination_date t) (expiration_date t))))
       (sql_and (sql_and (sql_cmp (=) (cleared t) (Some ''true''))
                         (is_not_null (clearing_timestamp t)))
          (sql_cmp (>)
             (map_option abs (date_diff_day (execution_timestamp t) (clearing_timestamp t)))
             (Some 5)))"

text \<open>
  The query returns one row: the error type, the number of rows selected and up to 20
  of their UTIs.
\<close>

record date_sequence_row =
  error_type :: string
  error_count :: nat
  sample_utis :: "string option list"

definition date_sequence_query :: "trade list \<Rightarrow> date_sequence_row" where
  "date_sequence_query emir_trades =
     (let selected = filter (\<lambda>t. where_true (date_sequence_condition t)) emir_trades
      in \<lparr>error_type = ''DATE_SEQUENCE_ERROR'',
          error_count = length selected,
          sample_utis = take 20 (map uti selected)\<rparr>)"

text \<open>
  The item the logical validator stores for this result (sort key
  \<open>LOGICAL#DATE_SEQUENCE\<close>): a validation result, as the scoring engine reads it, with
  the attributes of the storage pattern.
\<close>

record logical_item = validation_result +
  sk :: string
  affectedRecordCount :: nat
  sampleUtis :: "string option list"

definition date_sequence_item :: "date_sequence_row \<Rightarrow> logical_item" where
  "date_sequence_item row =
     \<lparr>errorCount = error_count row, severity = ''CRITICAL'',
      sk = ''LOGICAL#DATE_SEQUENCE'',
      affectedRecordCount = error_count row,
      sampleUtis = sample_utis row\<rparr>"

text \<open>The condition of the notional/valuation consistency query (4.1).\<close>

definition notional_valuation_condition :: "trade \<Rightarrow> sqlbool" where
  "notional_valuation_condition t =
     sql_or (sql_or (sql_or (sql_or
       (sql_and (is_not_null (notional_amount_1 t)) (is_null (notional_currency_1 t)))
       (sql_and (is_null (notional_amount_1 t)) (is_not_null (notional_currency_1 t))))
       (sql_cmp (<) (notional_amount_1 t) (Some 0)))
       (sql_cmp (>) (notional_amount_1 t) (Some 1000000000000)))
       (sql_and (is_not_null (valuation_amount t)) (is_null (valuation_currency t)))"

definition notional_valuation_query :: "trade list \<Rightarrow> trade list" where
  "notional_valuation_query emir_trades =
     filter (\<lambda>t. where_true (notional_valuation_condition t)) emir_trades"

section \<open>Scoring engine: score of a record\<close>

text \<open>
  The query that builds \<open>emir_record_scores\<close>, for one trade \<open>t\<close> and the rows of
  \<open>format_errors\<close> and \<open>logical_errors\<close> joined to it. The guide does not define these
  two tables: their column \<open>penalty_points\<close>, a sum of severity weights, is a parameter,
  \<open>None\<close> when the left join finds no row.

  \<open>CASE WHEN c IS NULL THEN 10 ELSE 0 END\<close>:
\<close>

definition null_penalty :: "'a option \<Rightarrow> int" where
  "null_penalty c = (if where_true (is_null c) then 10 else 0)"

text \<open>\<open>COALESCE(p, 0)\<close>:\<close>

definition coalesce0 :: "nat option \<Rightarrow> int" where
  "coalesce0 p = (case p of None \<Rightarrow> 0 | Some n \<Rightarrow> int n)"

definition total_penalty :: "trade \<Rightarrow> nat option \<Rightarrow> nat option \<Rightarrow> int" where
  "total_penalty t fmt_penalty_points log_penalty_points =
     null_penalty (uti t) + null_penalty (counterparty_1 t) + null_penalty (action_type t)
     + coalesce0 fmt_penalty_points + coalesce0 log_penalty_points"

text \<open>
  \<open>GREATEST(0, 100 - (...))\<close>. The guide writes out the first two terms of the sum and
  ends it with \<open>-- ... etc\<close>: the sum is the one of \<open>total_penalty\<close>.
\<close>

definition accuracy_score :: "trade \<Rightarrow> nat option \<Rightarrow> nat option \<Rightarrow> int" where
  "accuracy_score t fmt_penalty_points log_penalty_points =
     max 0 (100 - total_penalty t fmt_penalty_points log_penalty_points)"


text \<open>
  A trade with every column read here present and consistent: a new trade between two
  LEIs, executed at 10:30 on day 20355, effective the next day, expiring a year later,
  cleared one day after execution, with a notional of one million euro.
\<close>

definition sample_trade :: trade where
  "sample_trade =
     \<lparr>uti = Some ''UTI0000000001'',
      counterparty_1 = Some ''529900T8BM49AURSDO55'',
      action_type = Some ''NEW'',
      execution_timestamp = Some (20355 * 86400000 + 37800000),
      effective_date = Some 20356,
      expiration_date = Some 20721,
      early_termination_date = None,
      cleared = Some ''true'',
      clearing_timestamp = Some (20356 * 86400000 + 37800000),
      notional_amount_1 = Some 1000000,
      notional_currency_1 = Some ''EUR'',
      valuation_amount = Some 1000250,
      valuation_currency = Some ''EUR''\<rparr>"

section \<open>The rules of the specification, for comparison\<close>

text \<open>
  The temporal ordering rule in the specification's words: \<open>executionTimestamp \<le>
  effectiveDate \<le> expirationDate\<close>, and \<open>earlyTerminationDate\<close>, if present,
  \<open>< expirationDate\<close>. The rule is violated when one of these comparisons, between two
  values that are present, is false.
\<close>

definition spec_date_order_violated :: "trade \<Rightarrow> bool" where
  "spec_date_order_violated t =
     ((case (execution_timestamp t, effective_date t) of
         (Some e, Some d) \<Rightarrow> \<not> e \<le> date_to_timestamp d | _ \<Rightarrow> False) \<or>
      (case (effective_date t, expiration_date t) of
         (Some d, Some x) \<Rightarrow> \<not> d \<le> x | _ \<Rightarrow> False) \<or>
      (case (early_termination_date t, expiration_date t) of
         (Some y, Some x) \<Rightarrow> \<not> y < x | _ \<Rightarrow> False))"

text \<open>
  The notional consistency rule in the specification's words: the amount is present
  without the currency, or the currency without the amount, or the amount is outside
  \<open>[0, 1e12]\<close>.
\<close>

definition spec_notional_inconsistent :: "trade \<Rightarrow> bool" where
  "spec_notional_inconsistent t =
     ((notional_amount_1 t \<noteq> None \<and> notional_currency_1 t = None) \<or>
      (notional_amount_1 t = None \<and> notional_currency_1 t \<noteq> None) \<or>
      (case notional_amount_1 t of
         Some a \<Rightarrow> \<not> (0 \<le> a \<and> a \<le> 1000000000000) | None \<Rightarrow> False))"

text \<open>
  What the two queries test beyond these rules: a cleared trade whose clearing
  timestamp is more than five whole days away from its execution timestamp, and a
  valuation amount without a valuation currency.
\<close>

definition clearing_far_from_execution :: "trade \<Rightarrow> bool" where
  "clearing_far_from_execution t =
     (cleared t = Some ''true'' \<and>
      (case (execution_timestamp t, clearing_timestamp t) of
         (Some e, Some c) \<Rightarrow> 5 < \<bar>c - e\<bar> div 86400000 | _ \<Rightarrow> False))"

definition valuation_without_currency :: "trade \<Rightarrow> bool" where
  "valuation_without_currency t = (valuation_amount t \<noteq> None \<and> valuation_currency t = None)"

section \<open>The Glue table of the trades\<close>

text \<open>
  A column of the Glue table: name, Hive type and comment, as \<open>getEmirFieldSchema\<close>
  lists them.
\<close>

record column =
  name :: string
  type :: string
  comment :: string

definition getEmirFieldSchema :: "column list" where
  "getEmirFieldSchema = [
    \<lparr>name = ''uti'', type = ''string'', comment = ''Unique Transaction Identifier''\<rparr>,
    \<lparr>name = ''report_tracking_number'', type = ''string'',
     comment = ''Report tracking number''\<rparr>,
    \<lparr>name = ''counterparty_1'', type = ''string'',
     comment = ''Reporting counterparty LEI (20 chars)''\<rparr>,
    \<lparr>name = ''counterparty_2'', type = ''string'',
     comment = ''Other counterparty LEI (20 chars)''\<rparr>,
    \<lparr>name = ''report_submitting_entity_id'', type = ''string'',
     comment = ''Submitting entity LEI''\<rparr>,
    \<lparr>name = ''entity_responsible_reporting'', type = ''string'',
     comment = ''Responsible entity LEI''\<rparr>,
    \<lparr>name = ''action_type'', type = ''string'',
     comment = ''NEW, MODIFY, CANCEL, ERROR, etc.''\<rparr>,
    \<lparr>name = ''event_type'', type = ''string'', comment = ''Trade event type''\<rparr>,
    \<lparr>name = ''event_date'', type = ''date'', comment = ''Event occurrence date''\<rparr>,
    \<lparr>name = ''execution_timestamp'', type = ''timestamp'',
     comment = ''Trade execution timestamp''\<rparr>,
    \<lparr>name = ''effective_date'', type = ''date'',
     comment = ''Contract effective date''\<rparr>,
    \<lparr>name = ''expiration_date'', type = ''date'',
     comment = ''Contract expiration/maturity date''\<rparr>,
    \<lparr>name = ''early_termination_date'', type = ''date'',
     comment = ''Early termination date if applicable''\<rparr>,
    \<lparr>name = ''direction'', type = ''string'', comment = ''BUY or SELL''\<rparr>,
    \<lparr>name = ''venue_identification'', type = ''string'',
     comment = ''Trading venue MIC code''\<rparr>,
    \<lparr>name = ''master_agreement_type'', type = ''string'',
     comment = ''ISDA, NAFTA, etc.''\<rparr>,
    \<lparr>name = ''isin'', type = ''string'', comment = ''ISIN code (12 characters)''\<rparr>,
    \<lparr>name = ''upi'', type = ''string'', comment = ''Unique Product Identifier''\<rparr>,
    \<lparr>name = ''asset_class'', type = ''string'',
     comment = ''EQUITY, COMMODITY, FX, INTEREST_RATE, CREDIT''\<rparr>,
    \<lparr>name = ''product_classification'', type = ''string'', comment = ''CFI code''\<rparr>,
    \<lparr>name = ''product_name'', type = ''string'',
     comment = ''Product name/description''\<rparr>,
    \<lparr>name = ''underlying_isin'', type = ''string'',
     comment = ''Underlying asset ISIN''\<rparr>,
    \<lparr>name = ''underlying_index'', type = ''string'',
     comment = ''Underlying index name''\<rparr>,
    \<lparr>name = ''underlying_currency'', type = ''string'',
     comment = ''Underlying currency ISO 4217''\<rparr>,
    \<lparr>name = ''notional_currency_1'', type = ''string'',
     comment = ''Notional currency 1 (ISO 4217)''\<rparr>,
    \<lparr>name = ''notional_amount_1'', type = ''decimal(18,2)'',
     comment = ''Notional amount leg 1''\<rparr>,
    \<lparr>name = ''notional_currency_2'', type = ''string'',
     comment = ''Notional currency 2 (ISO 4217)''\<rparr>,
    \<lparr>name = ''notional_amount_2'', type = ''decimal(18,2)'',
     comment = ''Notional amount leg 2''\<rparr>,
    \<lparr>name = ''price_currency'', type = ''string'', comment = ''Price currency''\<rparr>,
    \<lparr>name = ''price'', type = ''decimal(18,6)'', comment = ''Trade price''\<rparr>,
    \<lparr>name = ''price_notation'', type = ''string'',
     comment = ''Price notation type''\<rparr>,
    \<lparr>name = ''cleared'', type = ''boolean'', comment = ''Cleared indicator''\<rparr>,
    \<lparr>name = ''central_counterparty'', type = ''string'', comment = ''CCP LEI''\<rparr>,
    \<lparr>name = ''clearing_timestamp'', type = ''timestamp'',
     comment = ''Clearing acceptance timestamp''\<rparr>,
    \<lparr>name = ''clearing_obligation'', type = ''boolean'',
     comment = ''Subject to clearing obligation''\<rparr>,
    \<lparr>name = ''clearing_threshold'', type = ''boolean'',
     comment = ''Clearing threshold indicator''\<rparr>,
    \<lparr>name = ''clearing_member'', type = ''string'',
     comment = ''Clearing member LEI''\<rparr>,
    \<lparr>name = ''intragroup'', type = ''boolean'',
     comment = ''Intragroup transaction''\<rparr>,
    \<lparr>name = ''post_trade_risk_reduction'', type = ''boolean'',
     comment = ''Post-trade risk reduction''\<rparr>,
    \<lparr>name = ''settlement_date'', type = ''date'', comment = ''Settlement date''\<rparr>,
    \<lparr>name = ''settlement_currency'', type = ''string'',
     comment = ''Settlement currency''\<rparr>,
    \<lparr>name = ''counterparty_1_nature'', type = ''string'',
     comment = ''CP1 nature: F=Financial, N=Non-Financial''\<rparr>,
    \<lparr>name = ''counterparty_2_nature'', type = ''string'', comment = ''CP2 nature''\<rparr>,
    \<lparr>name = ''counterparty_1_sector'', type = ''string'',
     comment = ''CP1 corporate sector''\<rparr>,
    \<lparr>name = ''counterparty_2_sector'', type = ''string'',
     comment = ''CP2 corporate sector''\<rparr>,
    \<lparr>name = ''counterparty_1_country'', type = ''string'',
     comment = ''CP1 country ISO 3166''\<rparr>,
    \<lparr>name = ''counterparty_2_country'', type = ''string'',
     comment = ''CP2 country ISO 3166''\<rparr>,
    \<lparr>name = ''execution_agent_id'', type = ''string'',
     comment = ''Execution agent LEI''\<rparr>,
    \<lparr>name = ''execution_agent_country'', type = ''string'',
     comment = ''Execution agent country''\<rparr>,
    \<lparr>name = ''broker_id'', type = ''string'', comment = ''Broker LEI''\<rparr>,
    \<lparr>name = ''broker_country'', type = ''string'', comment = ''Broker country''\<rparr>,
    \<lparr>name = ''trading_capacity'', type = ''string'',
     comment = ''PRINCIPAL or AGENT''\<rparr>,
    \<lparr>name = ''beneficiary_id'', type = ''string'', comment = ''Beneficiary LEI''\<rparr>,
    \<lparr>name = ''directly_linked_to_commercial_activity'', type = ''boolean'',
     comment = ''Commercial hedge''\<rparr>,
    \<lparr>name = ''collateralisation'', type = ''string'',
     comment = ''UNCOLLATERALISED, PARTIALLY, FULLY''\<rparr>,
    \<lparr>name = ''collateral_portfolio'', type = ''boolean'',
     comment = ''Portfolio-based collateral''\<rparr>,
    \<lparr>name = ''valuation_amount'', type = ''decimal(18,2)'',
     comment = ''Mark-to-market valuation''\<rparr>,
    \<lparr>name = ''valuation_currency'', type = ''string'',
     comment = ''Valuation currency''\<rparr>,
    \<lparr>name = ''valuation_timestamp'', type = ''timestamp'',
     comment = ''Valuation timestamp''\<rparr>,
    \<lparr>name = ''valuation_method'', type = ''string'', comment = ''Valuation method''\<rparr>,
    \<lparr>name = ''delta'', type = ''decimal(10,6)'', comment = ''Option delta''\<rparr>,
    \<lparr>name = ''report_timestamp'', type = ''timestamp'',
     comment = ''Report submission timestamp''\<rparr>,
    \<lparr>name = ''report_status'', type = ''string'', comment = ''Report status''\<rparr>,
    \<lparr>name = ''level'', type = ''string'',
     comment = ''Reporting level: T=Trade, P=Position''\<rparr>,
    \<lparr>name = ''confirmation_means'', type = ''string'',
     comment = ''Confirmation method''\<rparr>,
    \<lparr>name = ''confirmation_timestamp'', type = ''timestamp'',
     comment = ''Confirmation timestamp''\<rparr>,
    \<lparr>name = ''prior_uti'', type = ''string'',
     comment = ''Prior UTI for lifecycle events''\<rparr>,
    \<lparr>name = ''subsequent_position'', type = ''boolean'',
     comment = ''Is subsequent position report''\<rparr>,
    \<lparr>name = ''option_type'', type = ''string'', comment = ''CALL or PUT''\<rparr>,
    \<lparr>name = ''option_style'', type = ''string'',
     comment = ''EUROPEAN, AMERICAN, ASIAN, etc.''\<rparr>,
    \<lparr>name = ''option_exercise_date'', type = ''date'', comment = ''Exercise date''\<rparr>,
    \<lparr>name = ''strike_price'', type = ''decimal(18,6)'', comment = ''Strike price''\<rparr>,
    \<lparr>name = ''strike_price_currency'', type = ''string'',
     comment = ''Strike price currency''\<rparr>,
    \<lparr>name = ''strike_price_notation'', type = ''string'',
     comment = ''Strike notation''\<rparr>,
    \<lparr>name = ''delivery_type'', type = ''string'', comment = ''CASH or PHYSICAL''\<rparr>,
    \<lparr>name = ''barrier_type'', type = ''string'', comment = ''Barrier option type''\<rparr>,
    \<lparr>name = ''barrier_level'', type = ''decimal(18,6)'',
     comment = ''Barrier level''\<rparr>,
    \<lparr>name = ''premium_amount'', type = ''decimal(18,2)'',
     comment = ''Option premium''\<rparr>,
    \<lparr>name = ''leg1_fixed_rate'', type = ''decimal(10,6)'',
     comment = ''Leg 1 fixed rate''\<rparr>,
    \<lparr>name = ''leg1_floating_rate'', type = ''string'',
     comment = ''Leg 1 floating rate index''\<rparr>,
    \<lparr>name = ''leg1_floating_rate_term'', type = ''string'',
     comment = ''Leg 1 floating rate term''\<rparr>,
    \<lparr>name = ''leg1_floating_rate_reset_frequency'', type = ''string'',
     comment = ''Reset frequency''\<rparr>,
    \<lparr>name = ''leg1_payment_frequency'', type = ''string'',
     comment = ''Payment frequency''\<rparr>,
    \<lparr>name = ''leg1_payment_dates'', type = ''string'', comment = ''Payment dates''\<rparr>,
    \<lparr>name = ''leg1_spread'', type = ''decimal(10,6)'', comment = ''Leg 1 spread''\<rparr>,
    \<lparr>name = ''leg1_day_count_convention'', type = ''string'',
     comment = ''Day count convention''\<rparr>,
    \<lparr>name = ''leg1_notional_amount'', type = ''decimal(18,2)'',
     comment = ''Leg 1 notional''\<rparr>,
    \<lparr>name = ''leg1_notional_currency'', type = ''string'',
     comment = ''Leg 1 currency''\<rparr>,
    \<lparr>name = ''leg1_notional_schedule'', type = ''string'',
     comment = ''Notional schedule''\<rparr>,
    \<lparr>name = ''leg1_initial_exchange'', type = ''boolean'',
     comment = ''Initial notional exchange''\<rparr>,
    \<lparr>name = ''leg1_final_exchange'', type = ''boolean'',
     comment = ''Final notional exchange''\<rparr>,
    \<lparr>name = ''leg1_payer'', type = ''string'', comment = ''Leg 1 payer LEI''\<rparr>,
    \<lparr>name = ''leg1_receiver'', type = ''string'', comment = ''Leg 1 receiver LEI''\<rparr>,
    \<lparr>name = ''leg2_fixed_rate'', type = ''decimal(10,6)'',
     comment = ''Leg 2 fixed rate''\<rparr>,
    \<lparr>name = ''leg2_floating_rate'', type = ''string'',
     comment = ''Leg 2 floating rate index''\<rparr>,
    \<lparr>name = ''leg2_floating_rate_term'', type = ''string'',
     comment = ''Leg 2 floating rate term''\<rparr>,
    \<lparr>name = ''leg2_floating_rate_reset_frequency'', type = ''string'',
     comment = ''Reset frequency''\<rparr>,
    \<lparr>name = ''leg2_payment_frequency'', type = ''string'',
     comment = ''Payment frequency''\<rparr>,
    \<lparr>name = ''leg2_payment_dates'', type = ''string'', comment = ''Payment dates''\<rparr>,
    \<lparr>name = ''leg2_spread'', type = ''decimal(10,6)'', comment = ''Leg 2 spread''\<rparr>,
    \<lparr>name = ''leg2_day_count_convention'', type = ''string'',
     comment = ''Day count convention''\<rparr>,
    \<lparr>name = ''leg2_notional_amount'', type = ''decimal(18,2)'',
     comment = ''Leg 2 notional''\<rparr>,
    \<lparr>name = ''leg2_notional_currency'', type = ''string'',
     comment = ''Leg 2 currency''\<rparr>,
    \<lparr>name = ''leg2_notional_schedule'', type = ''string'',
     comment = ''Notional schedule''\<rparr>,
    \<lparr>name = ''leg2_initial_exchange'', type = ''boolean'',
     comment = ''Initial notional exchange''\<rparr>,
    \<lparr>name = ''leg2_final_exchange'', type = ''boolean'',
     comment = ''Final notional exchange''\<rparr>,
    \<lparr>name = ''leg2_payer'', type = ''string'', comment = ''Leg 2 payer LEI''\<rparr>,
    \<lparr>name = ''leg2_receiver'', type = ''string'', comment = ''Leg 2 receiver LEI''\<rparr>,
    \<lparr>name = ''initial_margin_posted'', type = ''decimal(18,2)'',
     comment = ''Initial margin posted''\<rparr>,
    \<lparr>name = ''initial_margin_received'', type = ''decimal(18,2)'',
     comment = ''Initial margin received''\<rparr>,
    \<lparr>name = ''variation_margin_posted'', type = ''decimal(18,2)'',
     comment = ''Variation margin posted''\<rparr>,
    \<lparr>name = ''variation_margin_received'', type = ''decimal(18,2)'',
     comment = ''Variation margin received''\<rparr>,
    \<lparr>name = ''margin_currency'', type = ''string'', comment = ''Margin currency''\<rparr>,
    \<lparr>name = ''collateral_type'', type = ''string'', comment = ''Collateral type''\<rparr>,
    \<lparr>name = ''collateral_value'', type = ''decimal(18,2)'',
     comment = ''Collateral value''\<rparr>,
    \<lparr>name = ''collateral_currency'', type = ''string'',
     comment = ''Collateral currency''\<rparr>,
    \<lparr>name = ''segregation_type'', type = ''string'', comment = ''Segregation type''\<rparr>,
    \<lparr>name = ''excess_collateral'', type = ''decimal(18,2)'',
     comment = ''Excess collateral''\<rparr>,
    \<lparr>name = ''collateral_quality'', type = ''string'',
     comment = ''Collateral quality rating''\<rparr>,
    \<lparr>name = ''rehypothecation'', type = ''boolean'',
     comment = ''Rehypothecation allowed''\<rparr>,
    \<lparr>name = ''exchange_rate'', type = ''decimal(10,6)'',
     comment = ''FX rate if applicable''\<rparr>,
    \<lparr>name = ''exchange_rate_basis'', type = ''string'',
     comment = ''Exchange rate basis''\<rparr>,
    \<lparr>name = ''package_indicator'', type = ''boolean'',
     comment = ''Part of package transaction''\<rparr>,
    \<lparr>name = ''package_transaction_price'', type = ''decimal(18,6)'',
     comment = ''Package price''\<rparr>,
    \<lparr>name = ''contingent_event'', type = ''string'',
     comment = ''Contingent event type''\<rparr>,
    \<lparr>name = ''compression_indicator'', type = ''boolean'',
     comment = ''Portfolio compression''\<rparr>,
    \<lparr>name = ''price_accuracy'', type = ''string'',
     comment = ''Price accuracy indicator''\<rparr>,
    \<lparr>name = ''execution_venue'', type = ''string'',
     comment = ''Execution venue type''\<rparr>,
    \<lparr>name = ''hybrid_indicator'', type = ''boolean'',
     comment = ''Hybrid instrument''\<rparr>,
    \<lparr>name = ''cross_currency_indicator'', type = ''boolean'',
     comment = ''Cross-currency swap''\<rparr>,
    \<lparr>name = ''fixed_float_indicator'', type = ''string'',
     comment = ''Fixed or floating leg indicator''\<rparr>,
    \<lparr>name = ''fixed_rate_day_count'', type = ''string'',
     comment = ''Fixed rate day count''\<rparr>,
    \<lparr>name = ''floating_rate_day_count'', type = ''string'',
     comment = ''Floating rate day count''\<rparr>,
    \<lparr>name = ''embedded_option'', type = ''boolean'',
     comment = ''Embedded option indicator''\<rparr>,
    \<lparr>name = ''optional_termination_date'', type = ''date'',
     comment = ''Optional termination date''\<rparr>,
    \<lparr>name = ''spread_notation'', type = ''string'', comment = ''Spread notation''\<rparr>,
    \<lparr>name = ''index_factor'', type = ''decimal(10,6)'', comment = ''Index factor''\<rparr>,
    \<lparr>name = ''attachment_point'', type = ''decimal(10,4)'',
     comment = ''Attachment point''\<rparr>,
    \<lparr>name = ''detachment_point'', type = ''decimal(10,4)'',
     comment = ''Detachment point''\<rparr>,
    \<lparr>name = ''quantity'', type = ''decimal(18,2)'', comment = ''Contract quantity''\<rparr>,
    \<lparr>name = ''quantity_unit'', type = ''string'', comment = ''Quantity unit''\<rparr>,
    \<lparr>name = ''delivery_point'', type = ''string'', comment = ''Delivery location''\<rparr>,
    \<lparr>name = ''load_type'', type = ''string'', comment = ''Load type for energy''\<rparr>,
    \<lparr>name = ''delivery_start_date'', type = ''date'', comment = ''Delivery start''\<rparr>,
    \<lparr>name = ''delivery_end_date'', type = ''date'', comment = ''Delivery end''\<rparr>,
    \<lparr>name = ''duration'', type = ''string'', comment = ''Contract duration''\<rparr>,
    \<lparr>name = ''frequency'', type = ''string'', comment = ''General frequency''\<rparr>,
    \<lparr>name = ''commodity_base'', type = ''string'',
     comment = ''Commodity base type''\<rparr>,
    \<lparr>name = ''commodity_details'', type = ''string'',
     comment = ''Commodity details''\<rparr>,
    \<lparr>name = ''notional_amount_schedule'', type = ''string'',
     comment = ''Notional schedule''\<rparr>,
    \<lparr>name = ''step_up_step_down'', type = ''boolean'',
     comment = ''Step up/down indicator''\<rparr>,
    \<lparr>name = ''callable_puttable'', type = ''string'',
     comment = ''Callable or puttable''\<rparr>,
    \<lparr>name = ''knock_in_out'', type = ''string'',
     comment = ''Knock-in or knock-out''\<rparr>,
    \<lparr>name = ''reference_entity'', type = ''string'',
     comment = ''Credit reference entity LEI''\<rparr>,
    \<lparr>name = ''reference_obligation'', type = ''string'',
     comment = ''Reference obligation ISIN''\<rparr>,
    \<lparr>name = ''seniority'', type = ''string'', comment = ''Seniority of debt''\<rparr>,
    \<lparr>name = ''index_series'', type = ''string'', comment = ''Index series''\<rparr>,
    \<lparr>name = ''index_version'', type = ''string'', comment = ''Index version''\<rparr>,
    \<lparr>name = ''tranche'', type = ''string'', comment = ''Tranche identifier''\<rparr>,
    \<lparr>name = ''basket_identifier'', type = ''string'',
     comment = ''Basket identifier''\<rparr>,
    \<lparr>name = ''basket_constituents'', type = ''string'',
     comment = ''Basket constituents''\<rparr>,
    \<lparr>name = ''custom_basket'', type = ''boolean'',
     comment = ''Custom basket indicator''\<rparr>,
    \<lparr>name = ''settlement_location'', type = ''string'',
     comment = ''Settlement location''\<rparr>,
    \<lparr>name = ''transaction_id'', type = ''string'',
     comment = ''Internal transaction ID''\<rparr>,
    \<lparr>name = ''venue_transaction_id'', type = ''string'',
     comment = ''Venue transaction ID''\<rparr>,
    \<lparr>name = ''platform'', type = ''string'', comment = ''Trading platform''\<rparr>,
    \<lparr>name = ''taxonomy'', type = ''string'', comment = ''Product taxonomy version''\<rparr>,
    \<lparr>name = ''additional_data'', type = ''string'',
     comment = ''Additional data field''\<rparr>
  ]"

text \<open>
  The table \<open>TradesTable\<close> that the constructor of \<open>EmirGlueCatalog\<close> creates: its
  columns are the schema, its partition keys year, month and day. The name of the table
  and the name of the bucket come from the configuration; the attributes of the storage
  format are left out.
\<close>

record glue_table =
  table_name :: string
  description :: string
  tableType :: string
  location :: string
  columns :: "column list"
  partitionKeys :: "column list"

definition tradesTable :: "string \<Rightarrow> string \<Rightarrow> glue_table" where
  "tradesTable tableName bucketName =
     \<lparr>table_name = tableName,
      description = ''EMIR REFIT trade data - 203 fields'',
      tableType = ''EXTERNAL_TABLE'',
      location = ''s3://'' @ bucketName @ ''/'',
      columns = getEmirFieldSchema,
      partitionKeys =
        [\<lparr>name = ''year'', type = ''string'', comment = ''Partition by year''\<rparr>,
         \<lparr>name = ''month'', type = ''string'', comment = ''Partition by month''\<rparr>,
         \<lparr>name = ''day'', type = ''string'', comment = ''Partition by day''\<rparr>]\<rparr>"

section \<open>The pipeline orchestrator\<close>

text \<open>
  Modelled from the spec: the repository has no state machine (the stack leaves the
  Step Functions pipeline to a future phase), so the orchestrator is the finite-state
  machine of section 4.6 of the specification. Its states are
  \<open>INITIATED \<rightarrow> COMPLETENESS \<rightarrow> FORMAT_AND_LOGICAL \<rightarrow> SCORING \<rightarrow> COMPLETED\<close>, with \<open>FAILED\<close>
  reachable from every state that is not terminal. The implementation guide describes
  the same order: the format validator is invoked after the completeness phase has
  completed, and runs in a parallel state with the logical validator.
\<close>

datatype state = INITIATED | COMPLETENESS | FORMAT_AND_LOGICAL | SCORING | COMPLETED | FAILED

text \<open>
  Modelled from the spec: the phases that report to the orchestrator. \<open>Format\<close> and
  \<open>Logical\<close> are the two branches of \<open>FORMAT_AND_LOGICAL\<close>.
\<close>

datatype phase = Completeness | Format | Logical | Scoring

text \<open>
  Modelled from the spec: what the orchestrator reacts to. A run is begun, a phase
  reports the success or the failure of its current attempt, or the run is cancelled.
\<close>

datatype event = Begin | Succeeds phase | Fails phase | Cancel

text \<open>
  Modelled from the spec: a branch of \<open>FORMAT_AND_LOGICAL\<close> has not started, is
  running with a number of retries used so far, has reported success, or has failed
  after its retries.
\<close>

datatype branch = NotStarted | Running nat | Succeeded | Failed

text \<open>
  Modelled from the spec: the report run, as far as the orchestrator writes it: its
  state, its two branches, and the retries used by the phase of a state with one phase.
\<close>

record report_run =
  state :: state
  format :: branch
  logical :: branch
  retries :: nat

text \<open>Modelled from the spec: a report run is created in the state \<open>INITIATED\<close>.\<close>

definition initiated :: report_run where
  "initiated = \<lparr>state = INITIATED, format = NotStarted, logical = NotStarted, retries = 0\<rparr>"

text \<open>
  Modelled from the spec: each phase is retried up to 3 times before being declared
  failed. A report of a branch that is not running changes nothing.
\<close>

fun report :: "branch \<Rightarrow> bool \<Rightarrow> branch" where
  "report (Running k) True = Succeeded"
| "report (Running k) False = (if k < 3 then Running (Suc k) else Failed)"
| "report b ok = b"

text \<open>
  Modelled from the spec: the failure of an attempt of the phase of a state with one
  phase, retried up to 3 times as well.
\<close>

definition phase_failed :: "report_run \<Rightarrow> report_run" where
  "phase_failed s =
     (if retries s < 3 then s\<lparr>retries := Suc (retries s)\<rparr> else s\<lparr>state := FAILED\<rparr>)"

text \<open>
  Modelled from the spec: the synchronization barrier. \<open>FORMAT_AND_LOGICAL\<close> proceeds to
  \<open>SCORING\<close> once both branches have reported success; if either branch has failed
  after its retries, the whole run is \<open>FAILED\<close>.
\<close>

definition barrier :: "report_run \<Rightarrow> report_run" where
  "barrier s =
     (if format s = Failed \<or> logical s = Failed then s\<lparr>state := FAILED\<rparr>
      else if format s = Succeeded \<and> logical s = Succeeded
      then s\<lparr>state := SCORING, retries := 0\<rparr>
      else s)"

text \<open>
  Modelled from the spec: the transition table. The terminal states \<open>COMPLETED\<close> and
  \<open>FAILED\<close> are immutable; a cancellation fails a run in any other state; an event that
  the current state does not wait for changes nothing.
\<close>

fun transition :: "state \<Rightarrow> event \<Rightarrow> report_run \<Rightarrow> report_run" where
  "transition COMPLETED e s = s"
| "transition FAILED e s = s"
| "transition st Cancel s = s\<lparr>state := FAILED\<rparr>"
| "transition INITIATED Begin s = s\<lparr>state := COMPLETENESS, retries := 0\<rparr>"
| "transition COMPLETENESS (Succeeds Completeness) s =
     s\<lparr>state := FORMAT_AND_LOGICAL, format := Running 0, logical := Running 0\<rparr>"
| "transition COMPLETENESS (Fails Completeness) s = phase_failed s"
| "transition FORMAT_AND_LOGICAL (Succeeds Format) s =
     barrier (s\<lparr>format := report (format s) True\<rparr>)"
| "transition FORMAT_AND_LOGICAL (Fails Format) s =
     barrier (s\<lparr>format := report (format s) False\<rparr>)"
| "transition FORMAT_AND_LOGICAL (Succeeds Logical) s =
     barrier (s\<lparr>logical := report (logical s) True\<rparr>)"
| "transition FORMAT_AND_LOGICAL (Fails Logical) s =
     barrier (s\<lparr>logical := report (logical s) False\<rparr>)"
| "transition SCORING (Succeeds Scoring) s = s\<lparr>state := COMPLETED\<rparr>"
| "transition SCORING (Fails Scoring) s = phase_failed s"
| "transition st e s = s"

text \<open>Modelled from the spec: the orchestrator applies the transition of the current state.\<close>

definition step :: "report_run \<Rightarrow> event \<Rightarrow> report_run" where
  "step s e = transition (state s) e s"

text \<open>
  Modelled from the spec: a run is the report run after a sequence of events, applied
  one after the other by the single writer of the status.
\<close>

definition run :: "event list \<Rightarrow> report_run" where
  "run events = foldl step initiated events"

text \<open>The report runs a sequence of events goes through, the first one included.\<close>

fun states_visited :: "report_run \<Rightarrow> event list \<Rightarrow> report_run list" where
  "states_visited s [] = [s]"
| "states_visited s (e # es) = s # states_visited (step s e) es"

text \<open>A branch has started; scoring has been entered.\<close>

definition started :: "report_run \<Rightarrow> bool" where
  "started s = (format s \<noteq> NotStarted \<or> logical s \<noteq> NotStarted)"

definition entered_scoring :: "report_run \<Rightarrow> bool" where
  "entered_scoring s = (state s = SCORING \<or> state s = COMPLETED)"

text \<open>
  The history of a run whose branches have started: the completeness phase reported its
  success in the state \<open>COMPLETENESS\<close>, and a branch that has succeeded reported its
  success after that.
\<close>

definition history :: "event list \<Rightarrow> bool \<Rightarrow> bool \<Rightarrow> bool" where
  "history events format_succeeded logical_succeeded =
     (\<exists>before after. events = before @ Succeeds Completeness # after \<and>
        state (run before) = COMPLETENESS \<and> \<not> started (run before) \<and>
        (format_succeeded \<longrightarrow> Succeeds Format \<in> set after) \<and>
        (logical_succeeded \<longrightarrow> Succeeds Logical \<in> set after))"

text \<open>
  The invariant of the runs: started branches have their history, no branch has started
  before the end of the completeness phase, and once scoring has been entered both
  branches have succeeded.
\<close>

definition run_inv :: "event list \<Rightarrow> bool" where
  "run_inv events =
     ((started (run events) \<longrightarrow>
         history events (format (run events) = Succeeded) (logical (run events) = Succeeded)) \<and>
      (state (run events) = INITIATED \<or> state (run events) = COMPLETENESS \<longrightarrow>
         \<not> started (run events)) \<and>
      (entered_scoring (run events) \<longrightarrow>
         format (run events) = Succeeded \<and> logical (run events) = Succeeded))"

text \<open>The branch of a phase, for the two phases that are branches.\<close>

definition branch_of :: "phase \<Rightarrow> report_run \<Rightarrow> branch" where
  "branch_of b s = (if b = Format then format s else logical s)"

section \<open>Properties of the traffic light\<close>

text \<open>
  C7. For every finite accuracy score \<open>s\<close> the classification is GREEN when \<open>s \<ge> 95\<close>,
  AMBER when \<open>85 \<le> s < 95\<close> and RED when \<open>s < 85\<close>; the boundary values 95 and 85
  are GREEN and AMBER.
\<close>

theorem traffic_light_thresholds:
  "(95 \<le> s \<longrightarrow> status (getTrafficLightStatus (Fin s)) = ''GREEN'') \<and>
   (85 \<le> s \<and> s < 95 \<longrightarrow> status (getTrafficLightStatus (Fin s)) = ''AMBER'') \<and>
   (s < 85 \<longrightarrow> status (getTrafficLightStatus (Fin s)) = ''RED'')"
  by (simp add: getTrafficLightStatus_def)

theorem traffic_light_thresholds_witness:
  "status (getTrafficLightStatus (Fin 95)) = ''GREEN'' \<and>
   status (getTrafficLightStatus (Fin 85)) = ''AMBER'' \<and>
   status (getTrafficLightStatus (Fin 84)) = ''RED''"
  using traffic_light_thresholds [of 95] traffic_light_thresholds [of 85]
    traffic_light_thresholds [of 84]
  by simp

section \<open>Properties of the overall score\<close>

lemma foldl_add_penalty: "foldl add_penalty a rs = a + foldl add_penalty 0 rs"
proof (induction rs arbitrary: a)
  case Nil
  show ?case by simp
next
  case (Cons r rs)
  have "foldl add_penalty (add_penalty a r) rs = add_penalty a r + foldl add_penalty 0 rs"
    by (rule Cons.IH)
  moreover have "foldl add_penalty (add_penalty 0 r) rs = add_penalty 0 r + foldl add_penalty 0 rs"
    by (rule Cons.IH)
  moreover have "add_penalty a r = a + add_penalty 0 r"
    by (simp add: add_penalty_def)
  ultimately show ?case by simp
qed

lemma totalPenalty_Nil: "totalPenalty [] = 0"
  by (simp add: totalPenalty_def)

lemma totalPenalty_Cons: "totalPenalty (r # rs) = add_penalty 0 r + totalPenalty rs"
  unfolding totalPenalty_def using foldl_add_penalty [of "add_penalty 0 r" rs] by simp

lemma totalPenalty_append: "totalPenalty (rs @ extra) = totalPenalty rs + totalPenalty extra"
  by (induction rs) (simp_all add: totalPenalty_Nil totalPenalty_Cons)

lemma add_penalty_nonneg: "0 \<le> add_penalty 0 r"
  by (simp add: add_penalty_def)

lemma totalPenalty_nonneg: "0 \<le> totalPenalty rs"
  by (induction rs) (simp_all add: totalPenalty_Nil totalPenalty_Cons add_penalty_nonneg)

lemma add_penalty_mono:
  "severity a = severity b \<Longrightarrow> errorCount a \<le> errorCount b \<Longrightarrow> add_penalty 0 a \<le> add_penalty 0 b"
  by (simp add: add_penalty_def)

lemma totalPenalty_mono:
  "list_all2 (\<lambda>a b. severity a = severity b \<and> errorCount a \<le> errorCount b) rs1 rs2
   \<Longrightarrow> totalPenalty rs1 \<le> totalPenalty rs2"
proof (induction rs1 rs2 rule: list_all2_induct)
  case Nil
  show ?case by simp
next
  case (Cons a rs1 b rs2)
  then show ?case
    using add_penalty_mono [of a b] by (simp add: totalPenalty_Cons add_mono)
qed

text \<open>
  With at least one record the code's \<open>((max - penalty) / max) * 100\<close> is the finite number
  \<open>100 - penalty / (totalRecords * 100) * 100\<close>, cut off below at 0.
\<close>

lemma score_positive_records:
  assumes "0 < totalRecords"
  shows "calculateAccuracyScore rs totalRecords =
         Fin (max 0 (100 - of_int (totalPenalty rs) / of_int (int totalRecords * 100) * 100))"
proof -
  have nz: "int totalRecords * 100 \<noteq> 0" using assms by simp
  have "(of_int (int totalRecords * 100 - totalPenalty rs) :: rat) / of_int (int totalRecords * 100) * 100
        = 100 - of_int (totalPenalty rs) / of_int (int totalRecords * 100) * 100"
    using assms by (simp add: field_simps)
  then show ?thesis
    using nz by (simp add: calculateAccuracyScore_def js_div_def Let_def)
qed

lemma score_antimono:
  assumes "0 < totalRecords" and "totalPenalty rs1 \<le> totalPenalty rs2"
  shows "js_le (calculateAccuracyScore rs2 totalRecords) (calculateAccuracyScore rs1 totalRecords)"
proof -
  have "(of_int (totalPenalty rs1) :: rat) \<le> of_int (totalPenalty rs2)"
    using assms(2) by simp
  then have "(of_int (totalPenalty rs1) :: rat) / of_int (int totalRecords * 100) * 100
        \<le> of_int (totalPenalty rs2) / of_int (int totalRecords * 100) * 100"
    using assms(1) by (simp add: divide_right_mono)
  then show ?thesis
    by (simp add: score_positive_records [OF assms(1)])
qed

lemma example_penalty:
  "totalPenalty [\<lparr>errorCount = 1250, severity = ''CRITICAL''\<rparr>,
      \<lparr>errorCount = 5230, severity = ''MAJOR''\<rparr>,
      \<lparr>errorCount = 12340, severity = ''MINOR''\<rparr>] = 63330"
  by (simp add: totalPenalty_def add_penalty_def)

lemma example_score:
  "calculateAccuracyScore [\<lparr>errorCount = 1250, severity = ''CRITICAL''\<rparr>,
      \<lparr>errorCount = 5230, severity = ''MAJOR''\<rparr>,
      \<lparr>errorCount = 12340, severity = ''MINOR''\<rparr>] 1000000 = Fin (9993667 / 100000)"
  by (simp add: calculateAccuracyScore_def js_div_def example_penalty)

text \<open>
  C2. For 1,000,000 records with 1,250 CRITICAL, 5,230 MAJOR and 12,340 MINOR errors the
  total penalty is 63,330, the overall score is a finite number that is 99.9367 to four
  decimal places (it differs from 99.9367 by less than 0.00005), and the traffic light of
  that score is GREEN.
\<close>

theorem overall_score_example:
  "totalPenalty [\<lparr>errorCount = 1250, severity = ''CRITICAL''\<rparr>,
      \<lparr>errorCount = 5230, severity = ''MAJOR''\<rparr>,
      \<lparr>errorCount = 12340, severity = ''MINOR''\<rparr>] = 63330 \<and>
   (\<exists>q. calculateAccuracyScore [\<lparr>errorCount = 1250, severity = ''CRITICAL''\<rparr>,
      \<lparr>errorCount = 5230, severity = ''MAJOR''\<rparr>,
      \<lparr>errorCount = 12340, severity = ''MINOR''\<rparr>] 1000000 = Fin q \<and>
      \<bar>q - 999367 / 10000\<bar> < 1 / 20000) \<and>
   status (getTrafficLightStatus (calculateAccuracyScore
     [\<lparr>errorCount = 1250, severity = ''CRITICAL''\<rparr>,
      \<lparr>errorCount = 5230, severity = ''MAJOR''\<rparr>,
      \<lparr>errorCount = 12340, severity = ''MINOR''\<rparr>] 1000000)) = ''GREEN''"
proof -
  have "\<bar>(9993667 / 100000 :: rat) - 999367 / 10000\<bar> < 1 / 20000"
    by simp
  then show ?thesis
    by (simp only: example_penalty example_score jsnum.inject simp_thms ex_simps)
       (simp add: getTrafficLightStatus_def)
qed

text \<open>
  C10, as stated, for any number of records: with \<open>totalRecords = 0\<close> and no error the
  division is \<open>0 / 0\<close> and the score is \<open>NaN\<close>, which is not below or equal to
  itself; and the score 0 of a result set with one more CRITICAL error is not below or
  equal to it either.
\<close>

theorem overall_score_not_monotone_without_records:
  "\<not> js_le (calculateAccuracyScore [\<lparr>errorCount = 0, severity = ''CRITICAL''\<rparr>] 0)
         (calculateAccuracyScore [\<lparr>errorCount = 0, severity = ''CRITICAL''\<rparr>] 0) \<and>
   \<not> js_le (calculateAccuracyScore [\<lparr>errorCount = 1, severity = ''CRITICAL''\<rparr>] 0)
         (calculateAccuracyScore [\<lparr>errorCount = 0, severity = ''CRITICAL''\<rparr>] 0)"
  by (simp add: calculateAccuracyScore_def js_div_def totalPenalty_def add_penalty_def)

text \<open>
  C10, amended: with at least one record, a result set whose error counts are, entry by
  entry and at the same severities, greater than or equal to those of another has an
  overall score less than or equal to the other's; and appending further results to a set
  never raises its score. The score of a record, too, does not rise when the penalty
  points of its format and logical errors grow.
\<close>

theorem overall_score_monotone:
  "0 < totalRecords \<Longrightarrow>
     (list_all2 (\<lambda>a b. severity a = severity b \<and> errorCount a \<le> errorCount b) rs1 rs2 \<longrightarrow>
        js_le (calculateAccuracyScore rs2 totalRecords) (calculateAccuracyScore rs1 totalRecords)) \<and>
     js_le (calculateAccuracyScore (rs1 @ extra) totalRecords) (calculateAccuracyScore rs1 totalRecords) \<and>
     (coalesce0 fmt1 \<le> coalesce0 fmt2 \<and> coalesce0 log1 \<le> coalesce0 log2 \<longrightarrow>
        accuracy_score t fmt2 log2 \<le> accuracy_score t fmt1 log1)"
proof (intro conjI impI)
  assume n: "0 < totalRecords"
  show "js_le (calculateAccuracyScore (rs1 @ extra) totalRecords) (calculateAccuracyScore rs1 totalRecords)"
    using score_antimono [OF n, of rs1 "rs1 @ extra"] totalPenalty_nonneg [of extra]
    by (simp add: totalPenalty_append)
next
  assume n: "0 < totalRecords"
    and r: "list_all2 (\<lambda>a b. severity a = severity b \<and> errorCount a \<le> errorCount b) rs1 rs2"
  show "js_le (calculateAccuracyScore rs2 totalRecords) (calculateAccuracyScore rs1 totalRecords)"
    using score_antimono [OF n totalPenalty_mono [OF r]] .
next
  assume "coalesce0 fmt1 \<le> coalesce0 fmt2 \<and> coalesce0 log1 \<le> coalesce0 log2"
  then have "total_penalty t fmt1 log1 \<le> total_penalty t fmt2 log2"
    by (simp add: total_penalty_def)
  then show "accuracy_score t fmt2 log2 \<le> accuracy_score t fmt1 log1"
    unfolding accuracy_score_def by linarith
qed

theorem overall_score_monotone_witness:
  "js_le (calculateAccuracyScore [\<lparr>errorCount = 8, severity = ''MAJOR''\<rparr>] 10)
         (calculateAccuracyScore [\<lparr>errorCount = 3, severity = ''MAJOR''\<rparr>] 10) \<and>
   js_le (calculateAccuracyScore ([\<lparr>errorCount = 3, severity = ''MAJOR''\<rparr>]
            @ [\<lparr>errorCount = 1, severity = ''MINOR''\<rparr>]) 10)
         (calculateAccuracyScore [\<lparr>errorCount = 3, severity = ''MAJOR''\<rparr>] 10) \<and>
   accuracy_score sample_trade (Some 15) None \<le> accuracy_score sample_trade (Some 5) None"
  using overall_score_monotone [of 10 "[\<lparr>errorCount = 3, severity = ''MAJOR''\<rparr>]"
      "[\<lparr>errorCount = 8, severity = ''MAJOR''\<rparr>]" "[\<lparr>errorCount = 1, severity = ''MINOR''\<rparr>]"
      "Some 5" "Some 15" None None sample_trade]
  by (simp add: coalesce0_def)

section \<open>Properties of the queries\<close>

lemma where_true_or: "where_true (sql_or p q) = (where_true p \<or> where_true q)"
  by (induction p q rule: sql_or.induct) (simp_all add: where_true_def)

lemma where_true_and: "where_true (sql_and p q) = (where_true p \<and> where_true q)"
  by (induction p q rule: sql_and.induct) (simp_all add: where_true_def)

lemma where_true_is_null: "where_true (is_null v) = (v = None)"
  by (simp add: where_true_def is_null_def)

lemma where_true_is_not_null: "where_true (is_not_null v) = (v \<noteq> None)"
  by (simp add: where_true_def is_not_null_def)

lemma where_true_cmp:
  "where_true (sql_cmp rel a b) = (case (a, b) of (Some x, Some y) \<Rightarrow> rel x y | _ \<Rightarrow> False)"
  by (simp add: where_true_def sql_cmp_def split: option.splits)

lemma where_true_Some: "where_true (Some b) = b"
  by (simp add: where_true_def)

lemma where_true_None: "where_true None = False"
  by (simp add: where_true_def)

lemmas where_true_simps =
  where_true_or where_true_and where_true_is_null where_true_is_not_null where_true_cmp
  where_true_Some where_true_None

subsection \<open>Date sequence\<close>

lemma abs_whole_days: "\<bar>sgn x * (\<bar>x\<bar> div 86400000)\<bar> = \<bar>x :: int\<bar> div 86400000"
  by (cases "x = 0") (simp_all add: abs_mult)

lemma date_sequence_selected:
  "where_true (date_sequence_condition t) =
     (spec_date_order_violated t \<or> clearing_far_from_execution t)"
  by (auto simp: date_sequence_condition_def where_true_simps spec_date_order_violated_def
      clearing_far_from_execution_def date_diff_day_def abs_whole_days
      split: option.splits)

lemma error_count_insert:
  "error_count (date_sequence_query (before @ t # after)) =
   error_count (date_sequence_query (before @ after))
     + (if where_true (date_sequence_condition t) then 1 else 0)"
  by (simp add: date_sequence_query_def Let_def)

text \<open>
  C4, as stated: a trade gets the date sequence error if and only if it violates the
  temporal ordering rule. A cleared trade whose dates are in order and whose clearing
  timestamp is six days after its execution is selected by the query.
\<close>

theorem date_sequence_error_without_order_violation:
  "where_true (date_sequence_condition
      (sample_trade\<lparr>clearing_timestamp := Some (20361 * 86400000 + 37800000)\<rparr>)) \<and>
   \<not> spec_date_order_violated
      (sample_trade\<lparr>clearing_timestamp := Some (20361 * 86400000 + 37800000)\<rparr>)"
  by (simp add: date_sequence_selected spec_date_order_violated_def
      clearing_far_from_execution_def sample_trade_def date_to_timestamp_def)

text \<open>
  C4, amended: the date sequence query selects a trade if and only if, among the values
  that are present, the execution timestamp is later than the effective date, or the
  effective date is later than the expiration date, or the early termination date is not
  before the expiration date, or the trade is cleared and its clearing timestamp is more
  than five whole days away from its execution timestamp. Every selected trade counts
  once in the error count of the one result, whose error type is
  \<open>DATE_SEQUENCE_ERROR\<close> and which is stored as a CRITICAL item under
  \<open>LOGICAL#DATE_SEQUENCE\<close>; a trade executed later than its effective date, alone in
  its report, gives the error count 1.
\<close>

theorem date_sequence_error_iff:
  "(where_true (date_sequence_condition t) \<longleftrightarrow>
      spec_date_order_violated t \<or> clearing_far_from_execution t) \<and>
   error_count (date_sequence_query (before @ t # after)) =
     error_count (date_sequence_query (before @ after))
       + (if where_true (date_sequence_condition t) then 1 else 0) \<and>
   (\<forall>e d. execution_timestamp t = Some e \<and> effective_date t = Some d \<and>
          date_to_timestamp d < e \<longrightarrow> error_count (date_sequence_query [t]) = 1) \<and>
   error_type (date_sequence_query ts) = ''DATE_SEQUENCE_ERROR'' \<and>
   severity (date_sequence_item (date_sequence_query ts)) = ''CRITICAL'' \<and>
   sk (date_sequence_item (date_sequence_query ts)) = ''LOGICAL#DATE_SEQUENCE'' \<and>
   errorCount (date_sequence_item (date_sequence_query ts)) = error_count (date_sequence_query ts)"
proof -
  have "error_count (date_sequence_query [t]) = 1"
    if "execution_timestamp t = Some e" "effective_date t = Some d" "date_to_timestamp d < e"
    for e d
  proof -
    have "spec_date_order_violated t"
      using that by (simp add: spec_date_order_violated_def)
    then have "where_true (date_sequence_condition t)"
      by (simp add: date_sequence_selected)
    then show ?thesis
      by (simp add: date_sequence_query_def Let_def)
  qed
  then show ?thesis
    using date_sequence_selected [of t] error_count_insert [of before t after]
    by (simp add: date_sequence_query_def date_sequence_item_def Let_def)
qed

theorem date_sequence_error_iff_witness:
  "where_true (date_sequence_condition (sample_trade\<lparr>effective_date := Some 20354\<rparr>)) \<and>
   error_count (date_sequence_query [sample_trade\<lparr>effective_date := Some 20354\<rparr>]) = 1 \<and>
   error_count (date_sequence_query
      [sample_trade, sample_trade\<lparr>effective_date := Some 20354\<rparr>, sample_trade]) =
     error_count (date_sequence_query [sample_trade, sample_trade]) + 1 \<and>
   \<not> where_true (date_sequence_condition sample_trade)"
  using date_sequence_error_iff [of "sample_trade\<lparr>effective_date := Some 20354\<rparr>"
      "[sample_trade]" "[sample_trade]" "[]"]
    date_sequence_error_iff [of sample_trade "[]" "[]" "[]"]
  by (simp add: spec_date_order_violated_def clearing_far_from_execution_def
      sample_trade_def date_to_timestamp_def)

subsection \<open>Notional and valuation consistency\<close>

lemma notional_selected:
  "where_true (notional_valuation_condition t) =
     (spec_notional_inconsistent t \<or> valuation_without_currency t)"
  by (auto simp: notional_valuation_condition_def where_true_simps
      spec_notional_inconsistent_def valuation_without_currency_def split: option.splits)

text \<open>
  C8, as stated: a trade is reported by the query exactly when its notional amount and
  currency are inconsistent. A trade with a consistent notional and a valuation amount
  without a currency is reported.
\<close>

theorem notional_finding_without_notional_inconsistency:
  "sample_trade\<lparr>valuation_currency := None\<rparr>
     \<in> set (notional_valuation_query [sample_trade\<lparr>valuation_currency := None\<rparr>]) \<and>
   \<not> spec_notional_inconsistent (sample_trade\<lparr>valuation_currency := None\<rparr>)"
  by (simp add: notional_valuation_query_def notional_selected spec_notional_inconsistent_def
      valuation_without_currency_def sample_trade_def)

text \<open>
  C8, amended: the notional/valuation consistency query returns a trade of the report
  exactly when the notional amount is present without the notional currency, or the
  notional currency is present without the notional amount, or the notional amount is
  outside \<open>[0, 1e12]\<close>, or the valuation amount is present without the valuation
  currency. A trade with none of these is not returned.
\<close>

theorem notional_valuation_query_iff:
  "t \<in> set (notional_valuation_query ts) \<longleftrightarrow>
     t \<in> set ts \<and> (spec_notional_inconsistent t \<or> valuation_without_currency t)"
  by (auto simp: notional_valuation_query_def notional_selected)

theorem notional_valuation_query_iff_witness:
  "sample_trade \<notin> set (notional_valuation_query [sample_trade]) \<and>
   sample_trade\<lparr>notional_currency_1 := None\<rparr>
     \<in> set (notional_valuation_query [sample_trade, sample_trade\<lparr>notional_currency_1 := None\<rparr>]) \<and>
   sample_trade\<lparr>notional_amount_1 := Some 1000000000001\<rparr>
     \<in> set (notional_valuation_query [sample_trade\<lparr>notional_amount_1 := Some 1000000000001\<rparr>])"
  using notional_valuation_query_iff [of sample_trade "[sample_trade]"]
    notional_valuation_query_iff [of "sample_trade\<lparr>notional_currency_1 := None\<rparr>"
      "[sample_trade, sample_trade\<lparr>notional_currency_1 := None\<rparr>]"]
    notional_valuation_query_iff [of "sample_trade\<lparr>notional_amount_1 := Some 1000000000001\<rparr>"
      "[sample_trade\<lparr>notional_amount_1 := Some 1000000000001\<rparr>]"]
  by (simp add: spec_notional_inconsistent_def valuation_without_currency_def sample_trade_def)

subsection \<open>UTI uniqueness\<close>

lemma filter_eq_distinct:
  "distinct xs \<Longrightarrow> filter (\<lambda>x. x = u) xs = (if u \<in> set xs then [u] else [])"
  by (induction xs) auto

lemma count_list_pos: "(0 < count_list xs u) = (u \<in> set xs)"
  by (induction xs) auto

lemma uti_rows_for:
  "filter (\<lambda>row. fst row = u) (uti_uniqueness_query ts) =
     (if 1 < count_list (List.map_filter uti ts) u
      then [(u, count_list (List.map_filter uti ts) u)] else [])"
proof -
  let ?us = "List.map_filter uti ts"
  have "filter (\<lambda>row. fst row = u) (uti_uniqueness_query ts) =
        map (\<lambda>u. (u, count_list ?us u))
          (filter (\<lambda>x. 1 < count_list ?us x) (filter (\<lambda>x. x = u) (remdups ?us)))"
    by (simp add: uti_uniqueness_query_def Let_def filter_map comp_def conj_commute)
  also have "filter (\<lambda>x. x = u) (remdups ?us) = (if u \<in> set ?us then [u] else [])"
    by (simp add: filter_eq_distinct)
  finally show ?thesis
    using count_list_pos [of ?us u] by auto
qed

lemma matching_length:
  "length (trades_matching (u, n) ts) = count_list (List.map_filter uti ts) u"
  by (induction ts)
    (auto simp: trades_matching_def where_true_cmp List.map_filter_simps split: option.splits)

text \<open>
  C6, as stated: the one duplicate finding is attributed to the second of the two trades,
  and the first is never flagged. The result row of the query carries the UTI and the
  size of the group; both trades, the first as much as the second, match it.
\<close>

theorem duplicate_row_matches_first_occurrence:
  "uti_uniqueness_query
     [sample_trade\<lparr>uti := Some ''DUP1''\<rparr>,
      sample_trade\<lparr>uti := Some ''DUP1'', action_type := Some ''MODIFY''\<rparr>] = [(''DUP1'', 2)] \<and>
   trades_matching (''DUP1'', 2)
     [sample_trade\<lparr>uti := Some ''DUP1''\<rparr>,
      sample_trade\<lparr>uti := Some ''DUP1'', action_type := Some ''MODIFY''\<rparr>] =
     [sample_trade\<lparr>uti := Some ''DUP1''\<rparr>,
      sample_trade\<lparr>uti := Some ''DUP1'', action_type := Some ''MODIFY''\<rparr>]"
  by (simp add: uti_uniqueness_query_def trades_matching_def where_true_cmp
      List.map_filter_simps sample_trade_def)

text \<open>
  C6, amended: UTI uniqueness is computed over all trades of the report. For a UTI
  carried by more than one trade the query returns exactly one row, the UTI with the
  number of trades that carry it (so exactly one row \<open>(u, 2)\<close> when two trades share
  \<open>u\<close>), and none for a UTI carried by at most one trade. The row names the UTI, not an
  occurrence: the trades matching it are all the trades of the group.
\<close>

theorem uti_uniqueness_one_row_per_group:
  "filter (\<lambda>row. fst row = u) (uti_uniqueness_query ts) =
     (if 1 < count_list (List.map_filter uti ts) u
      then [(u, count_list (List.map_filter uti ts) u)] else []) \<and>
   length (trades_matching (u, n) ts) = count_list (List.map_filter uti ts) u"
  using uti_rows_for [of u ts] matching_length [of u n ts] by simp

theorem uti_uniqueness_one_row_per_group_witness:
  "filter (\<lambda>row. fst row = ''DUP1'')
     (uti_uniqueness_query
        [sample_trade\<lparr>uti := Some ''DUP1''\<rparr>, sample_trade,
         sample_trade\<lparr>uti := Some ''DUP1''\<rparr>]) = [(''DUP1'', 2)] \<and>
   length (trades_matching (''DUP1'', 2)
        [sample_trade\<lparr>uti := Some ''DUP1''\<rparr>, sample_trade,
         sample_trade\<lparr>uti := Some ''DUP1''\<rparr>]) = 2"
  using uti_uniqueness_one_row_per_group [of "''DUP1''"
      "[sample_trade\<lparr>uti := Some ''DUP1''\<rparr>, sample_trade,
        sample_trade\<lparr>uti := Some ''DUP1''\<rparr>]" 2]
  by (simp add: List.map_filter_simps sample_trade_def)

subsection \<open>Record scores\<close>

text \<open>
  C9. For every trade and all penalty points of its format and logical findings, the
  total penalty is at least 0, the accuracy score is between 0 and 100, and the score is
  \<open>100 - penalty\<close> clamped to \<open>[0, 100]\<close>.
\<close>

theorem record_score_bounds:
  "0 \<le> total_penalty t fmt_points log_points \<and>
   0 \<le> accuracy_score t fmt_points log_points \<and> accuracy_score t fmt_points log_points \<le> 100 \<and>
   accuracy_score t fmt_points log_points = max 0 (min 100 (100 - total_penalty t fmt_points log_points))"
proof -
  have "0 \<le> total_penalty t fmt_points log_points"
    by (simp add: total_penalty_def null_penalty_def coalesce0_def split: option.splits)
  then show ?thesis
    by (simp add: accuracy_score_def)
qed




section \<open>Properties of the table schema\<close>

lemma schema_length: "length getEmirFieldSchema = 168"
  by (simp add: getEmirFieldSchema_def)

lemma schema_names_distinct: "distinct (map name getEmirFieldSchema)"
  unfolding getEmirFieldSchema_def
  by (simp only: list.map column.select_convs distinct.simps list.set insert_iff empty_iff
      list.inject list.distinct char.inject simp_thms de_Morgan_disj)

text \<open>
  C1, at the schema of the code: \<open>getEmirFieldSchema\<close>, which takes no input, returns
  168 fields and not the 203 that its own comments and the description of the table
  announce. The names of the fields are pairwise distinct, and the trades table is built
  with the list as its columns.
\<close>

theorem schema_has_168_fields:
  "length getEmirFieldSchema = 168 \<and> length getEmirFieldSchema \<noteq> 203 \<and>
   distinct (map name getEmirFieldSchema) \<and>
   columns (tradesTable ''emir_trades'' ''emir-raw-data'') = getEmirFieldSchema \<and>
   description (tradesTable ''emir_trades'' ''emir-raw-data'') =
     ''EMIR REFIT trade data - 203 fields''"
  by (simp add: schema_length schema_names_distinct tradesTable_def)

section \<open>Properties of the orchestrator\<close>

lemma step_terminal: "state s = FAILED \<or> state s = COMPLETED \<Longrightarrow> step s e = s"
  by (auto simp: step_def)

lemma step_succeeded:
  "(format (step s e) = Succeeded \<longrightarrow> format s = Succeeded \<or> e = Succeeds Format) \<and>
   (logical (step s e) = Succeeded \<longrightarrow> logical s = Succeeded \<or> e = Succeeds Logical)"
  unfolding step_def
  by (induction "state s" e s rule: transition.induct)
     (auto simp: barrier_def phase_failed_def elim: report.elims split: if_splits)

lemma step_started:
  "started (step s e) \<Longrightarrow> started s \<or> (state s = COMPLETENESS \<and> e = Succeeds Completeness)"
  unfolding step_def started_def
  by (induction "state s" e s rule: transition.induct)
     (auto simp: barrier_def phase_failed_def elim: report.elims split: if_splits)

lemma step_completeness_succeeds:
  "state s = COMPLETENESS \<Longrightarrow>
   step s (Succeeds Completeness) =
     s\<lparr>state := FORMAT_AND_LOGICAL, format := Running 0, logical := Running 0\<rparr>"
  by (simp add: step_def)

lemma step_early:
  "state (step s e) = INITIATED \<or> state (step s e) = COMPLETENESS \<Longrightarrow>
   (state s = INITIATED \<or> state s = COMPLETENESS) \<and>
   format (step s e) = format s \<and> logical (step s e) = logical s"
  unfolding step_def
  by (induction "state s" e s rule: transition.induct)
     (auto simp: barrier_def phase_failed_def split: if_splits)

lemma step_entered:
  assumes "entered_scoring s \<longrightarrow> format s = Succeeded \<and> logical s = Succeeded"
    and "entered_scoring (step s e)"
  shows "format (step s e) = Succeeded \<and> logical (step s e) = Succeeded"
  using assms unfolding step_def entered_scoring_def
  by (induction "state s" e s rule: transition.induct)
     (auto simp: barrier_def phase_failed_def split: if_splits)

lemma run_snoc: "run (events @ [e]) = step (run events) e"
  by (simp add: run_def)

lemma run_append: "run (events @ later) = foldl step (run events) later"
  by (simp add: run_def)

lemma history_snoc:
  assumes "history events f l"
    and "f' \<longrightarrow> f \<or> e = Succeeds Format"
    and "l' \<longrightarrow> l \<or> e = Succeeds Logical"
  shows "history (events @ [e]) f' l'"
proof -
  from assms(1) obtain before after where h:
    "events = before @ Succeeds Completeness # after"
    "state (run before) = COMPLETENESS" "\<not> started (run before)"
    "f \<longrightarrow> Succeeds Format \<in> set after" "l \<longrightarrow> Succeeds Logical \<in> set after"
    unfolding history_def by blast
  have "events @ [e] = before @ Succeeds Completeness # (after @ [e])"
    using h(1) by simp
  moreover have "f' \<longrightarrow> Succeeds Format \<in> set (after @ [e])"
    using assms(2) h(4) by auto
  moreover have "l' \<longrightarrow> Succeeds Logical \<in> set (after @ [e])"
    using assms(3) h(5) by auto
  ultimately show ?thesis
    unfolding history_def using h(2,3) by blast
qed

lemma run_inv_Nil: "run_inv []"
  by (simp add: run_inv_def run_def initiated_def started_def entered_scoring_def)

lemma run_inv_snoc:
  assumes "run_inv events"
  shows "run_inv (events @ [e])"
proof -
  let ?s = "run events" and ?s' = "step (run events) e"
  have a: "history (events @ [e]) (format ?s' = Succeeded) (logical ?s' = Succeeded)"
    if st: "started ?s'"
  proof (cases "started ?s")
    case True
    then have "history events (format ?s = Succeeded) (logical ?s = Succeeded)"
      using assms by (simp add: run_inv_def)
    then show ?thesis
      using step_succeeded [of ?s e] by (intro history_snoc) auto
  next
    case False
    then have c: "state ?s = COMPLETENESS" "e = Succeeds Completeness"
      using step_started [OF st] by auto
    have "format ?s' \<noteq> Succeeded" "logical ?s' \<noteq> Succeeded"
      using c by (simp_all add: step_completeness_succeeds)
    moreover have "events @ [e] = events @ Succeeds Completeness # []"
      using c by simp
    ultimately show ?thesis
      unfolding history_def using c(1) False by blast
  qed
  have b: "\<not> started ?s'" if "state ?s' = INITIATED \<or> state ?s' = COMPLETENESS"
  proof -
    have "(state ?s = INITIATED \<or> state ?s = COMPLETENESS) \<and>
      format ?s' = format ?s \<and> logical ?s' = logical ?s"
      using step_early [OF that] .
    then show ?thesis
      using assms by (simp add: run_inv_def started_def)
  qed
  have c: "format ?s' = Succeeded \<and> logical ?s' = Succeeded" if "entered_scoring ?s'"
    using assms that by (intro step_entered) (simp_all add: run_inv_def)
  show ?thesis
    unfolding run_inv_def run_snoc using a b c by blast
qed

lemma run_inv_all: "run_inv events"
  by (induction events rule: rev_induct) (simp_all add: run_inv_Nil run_inv_snoc)

lemma foldl_terminal: "state s = FAILED \<Longrightarrow> foldl step s es = s"
  by (induction es) (simp_all add: step_terminal)

lemma visited_terminal: "state s = FAILED \<Longrightarrow> list_all P (states_visited s es) = P s"
  by (induction es) (simp_all add: step_terminal)

lemma visited_first: "list_all P (states_visited s es) \<Longrightarrow> P s"
  by (cases es) simp_all

lemma visited_append:
  "list_all P (states_visited s (es @ later)) =
     (list_all P (states_visited s es) \<and> list_all P (states_visited (foldl step s es) later))"
  by (induction es arbitrary: s) (auto dest: visited_first)

lemma early_not_entered:
  "state s = INITIATED \<or> state s = COMPLETENESS \<Longrightarrow> \<not> entered_scoring s"
  by (auto simp: entered_scoring_def)

lemma visited_early:
  "state (run events) = INITIATED \<or> state (run events) = COMPLETENESS \<Longrightarrow>
   list_all (\<lambda>s. \<not> entered_scoring s) (states_visited initiated events)"
proof (induction events rule: rev_induct)
  case Nil
  then show ?case by (simp add: run_def early_not_entered)
next
  case (snoc e events)
  have early: "state (run events) = INITIATED \<or> state (run events) = COMPLETENESS"
    using snoc.prems step_early [of "run events" e] by (simp add: run_snoc)
  have "list_all (\<lambda>s. \<not> entered_scoring s) (states_visited initiated events)"
    using snoc.IH early by simp
  moreover have "\<not> entered_scoring (step (run events) e)"
    using snoc.prems by (simp add: run_snoc early_not_entered)
  moreover have "\<not> entered_scoring (run events)"
    using early by (rule early_not_entered)
  ultimately show ?case
    by (simp add: visited_append run_def)
qed

lemma branch_step:
  assumes "b = Format \<or> b = Logical"
    and "state s = FORMAT_AND_LOGICAL" and "branch_of b s = Running k" and "k \<le> 3"
    and "e \<noteq> Succeeds b"
  shows "state (step s e) = FAILED \<or>
         (state (step s e) = FORMAT_AND_LOGICAL \<and>
          branch_of b (step s e) = Running (k + count_list [e] (Fails b)) \<and>
          k + count_list [e] (Fails b) \<le> 3)"
  using assms unfolding step_def branch_of_def
  by (induction "state s" e s rule: transition.induct)
     (auto simp: barrier_def split: if_splits)

lemma branch_exhausted:
  assumes "b = Format \<or> b = Logical"
    and "state s = FORMAT_AND_LOGICAL" and "branch_of b s = Running k" and "k \<le> 3"
    and "Succeeds b \<notin> set later"
  shows "(state (foldl step s later) = FAILED \<or>
          (state (foldl step s later) = FORMAT_AND_LOGICAL \<and>
           branch_of b (foldl step s later) = Running (k + count_list later (Fails b)) \<and>
           k + count_list later (Fails b) \<le> 3)) \<and>
         list_all (\<lambda>s. \<not> entered_scoring s) (states_visited s later)"
  using assms(2-5)
proof (induction later arbitrary: s k)
  case Nil
  then show ?case by (simp add: entered_scoring_def)
next
  case (Cons e later)
  have ne: "e \<noteq> Succeeds b" and rest: "Succeeds b \<notin> set later"
    using Cons.prems(4) by auto
  have here: "\<not> entered_scoring s"
    using Cons.prems(1) by (simp add: entered_scoring_def)
  from branch_step [OF assms(1) Cons.prems(1-3) ne]
  show ?case
  proof
    assume f: "state (step s e) = FAILED"
    then show ?thesis
      using here by (simp add: foldl_terminal visited_terminal entered_scoring_def)
  next
    assume r: "state (step s e) = FORMAT_AND_LOGICAL \<and>
          branch_of b (step s e) = Running (k + count_list [e] (Fails b)) \<and>
          k + count_list [e] (Fails b) \<le> 3"
    define k' where "k' = k + count_list [e] (Fails b)"
    have eq: "k' + count_list later (Fails b) = k + count_list (e # later) (Fails b)"
      by (simp add: k'_def)
    have ih: "(state (foldl step (step s e) later) = FAILED \<or>
          (state (foldl step (step s e) later) = FORMAT_AND_LOGICAL \<and>
           branch_of b (foldl step (step s e) later) = Running (k' + count_list later (Fails b)) \<and>
           k' + count_list later (Fails b) \<le> 3)) \<and>
         list_all (\<lambda>s. \<not> entered_scoring s) (states_visited (step s e) later)"
      using Cons.IH [of "step s e" k'] r rest by (simp add: k'_def)
    show ?thesis
      using ih here unfolding eq by simp
  qed
qed

text \<open>
  C3. In every run, that is after every sequence of events: if a branch of
  \<open>FORMAT_AND_LOGICAL\<close> has started, the completeness phase has reported its success
  before, in the state \<open>COMPLETENESS\<close> and with no branch started; if scoring has been
  entered, the format branch and the logical branch have both reported success after
  that; and if, once the completeness phase has succeeded, a branch fails four times
  (its first attempt and its 3 retries) without succeeding, the run is \<open>FAILED\<close>, no
  later event changes it, and no report run it goes through has entered scoring.
\<close>

theorem completeness_before_branches_before_scoring:
  "(started (run events) \<longrightarrow>
      (\<exists>before after. events = before @ Succeeds Completeness # after \<and>
         state (run before) = COMPLETENESS \<and> \<not> started (run before))) \<and>
   (entered_scoring (run events) \<longrightarrow>
      (\<exists>before after. events = before @ Succeeds Completeness # after \<and>
         state (run before) = COMPLETENESS \<and> \<not> started (run before) \<and>
         Succeeds Format \<in> set after \<and> Succeeds Logical \<in> set after)) \<and>
   ((b = Format \<or> b = Logical) \<and> state (run pre) = COMPLETENESS \<and>
    Succeeds b \<notin> set post \<and> 4 \<le> count_list post (Fails b) \<longrightarrow>
      state (run (pre @ Succeeds Completeness # post)) = FAILED \<and>
      run (pre @ Succeeds Completeness # post @ later) =
        run (pre @ Succeeds Completeness # post) \<and>
      list_all (\<lambda>s. \<not> entered_scoring s)
        (states_visited initiated (pre @ Succeeds Completeness # post @ later)))"
proof (intro conjI impI)
  assume "started (run events)"
  then have "history events (format (run events) = Succeeded) (logical (run events) = Succeeded)"
    using run_inv_all [of events] by (simp add: run_inv_def)
  then show "\<exists>before after. events = before @ Succeeds Completeness # after \<and>
         state (run before) = COMPLETENESS \<and> \<not> started (run before)"
    unfolding history_def by blast
next
  assume "entered_scoring (run events)"
  then have both: "format (run events) = Succeeded" "logical (run events) = Succeeded"
    using run_inv_all [of events] by (simp_all add: run_inv_def)
  then have "started (run events)"
    by (simp add: started_def)
  then have "history events True True"
    using run_inv_all [of events] both by (simp add: run_inv_def)
  then show "\<exists>before after. events = before @ Succeeds Completeness # after \<and>
         state (run before) = COMPLETENESS \<and> \<not> started (run before) \<and>
         Succeeds Format \<in> set after \<and> Succeeds Logical \<in> set after"
    unfolding history_def by blast
next
  assume a: "(b = Format \<or> b = Logical) \<and> state (run pre) = COMPLETENESS \<and>
    Succeeds b \<notin> set post \<and> 4 \<le> count_list post (Fails b)"
  define s1 where "s1 = step (run pre) (Succeeds Completeness)"
  have s1: "state s1 = FORMAT_AND_LOGICAL" "branch_of b s1 = Running 0"
    using a by (simp_all add: s1_def step_completeness_succeeds branch_of_def)
  have r: "run (pre @ Succeeds Completeness # post) = foldl step s1 post"
    by (simp add: run_def s1_def)
  have ex: "(state (foldl step s1 post) = FAILED \<or>
          (state (foldl step s1 post) = FORMAT_AND_LOGICAL \<and>
           branch_of b (foldl step s1 post) = Running (0 + count_list post (Fails b)) \<and>
           0 + count_list post (Fails b) \<le> 3)) \<and>
         list_all (\<lambda>s. \<not> entered_scoring s) (states_visited s1 post)"
    using a s1 by (intro branch_exhausted) simp_all
  then have f: "state (foldl step s1 post) = FAILED"
    using a by auto
  show "state (run (pre @ Succeeds Completeness # post)) = FAILED"
    using f r by simp
  show "run (pre @ Succeeds Completeness # post @ later) =
        run (pre @ Succeeds Completeness # post)"
  proof -
    have "run (pre @ Succeeds Completeness # post @ later) = foldl step (foldl step s1 post) later"
      by (simp add: run_def s1_def)
    then show ?thesis
      using f r by (simp add: foldl_terminal)
  qed
  have "list_all (\<lambda>s. \<not> entered_scoring s) (states_visited initiated pre)"
    using a by (simp add: visited_early)
  moreover have "\<not> entered_scoring (run pre)"
    using a by (simp add: early_not_entered)
  moreover have "list_all (\<lambda>s. \<not> entered_scoring s) (states_visited s1 (post @ later))"
    using ex f by (simp add: visited_append visited_terminal entered_scoring_def)
  moreover have "foldl step initiated pre = run pre"
    by (simp add: run_def)
  ultimately show "list_all (\<lambda>s. \<not> entered_scoring s)
        (states_visited initiated (pre @ Succeeds Completeness # post @ later))"
    by (simp add: visited_append s1_def)
qed

lemma run_eval:
  "run [Begin, Fails Completeness, Succeeds Completeness, Succeeds Logical, Fails Format,
        Succeeds Format] =
     \<lparr>state = SCORING, format = Succeeded, logical = Succeeded, retries = 0\<rparr>"
  by (simp add: run_def step_def initiated_def barrier_def phase_failed_def)

theorem completeness_before_branches_before_scoring_witness:
  "entered_scoring (run [Begin, Fails Completeness, Succeeds Completeness, Succeeds Logical,
      Fails Format, Succeeds Format]) \<and>
   (\<exists>before after.
      [Begin, Fails Completeness, Succeeds Completeness, Succeeds Logical, Fails Format,
       Succeeds Format] = before @ Succeeds Completeness # after \<and>
      state (run before) = COMPLETENESS \<and> \<not> started (run before) \<and>
      Succeeds Format \<in> set after \<and> Succeeds Logical \<in> set after) \<and>
   state (run [Begin]) = COMPLETENESS \<and>
   state (run ([Begin] @ Succeeds Completeness #
      [Fails Logical, Fails Logical, Succeeds Format, Fails Logical, Fails Logical])) = FAILED \<and>
   list_all (\<lambda>s. \<not> entered_scoring s)
     (states_visited initiated ([Begin] @ Succeeds Completeness #
        [Fails Logical, Fails Logical, Succeeds Format, Fails Logical, Fails Logical]
        @ [Succeeds Logical, Succeeds Scoring]))"
proof -
  have e: "entered_scoring (run [Begin, Fails Completeness, Succeeds Completeness,
      Succeeds Logical, Fails Format, Succeeds Format])"
    by (simp add: run_eval entered_scoring_def)
  have c: "state (run [Begin]) = COMPLETENESS"
    by (simp add: run_def step_def initiated_def)
  have n: "Succeeds Logical \<notin>
      set [Fails Logical, Fails Logical, Succeeds Format, Fails Logical, Fails Logical]"
    "4 \<le> count_list [Fails Logical, Fails Logical, Succeeds Format, Fails Logical,
      Fails Logical] (Fails Logical)"
    by simp_all
  show ?thesis
    using e c n
      completeness_before_branches_before_scoring
        [of "[Begin, Fails Completeness, Succeeds Completeness, Succeeds Logical,
              Fails Format, Succeeds Format]" Logical "[Begin]"
            "[Fails Logical, Fails Logical, Succeeds Format, Fails Logical, Fails Logical]"
            "[Succeeds Logical, Succeeds Scoring]"]
    by blast
qed

end
